theory Spec2Isabelle
  imports Main
begin

section \<open>Python values\<close>

text \<open>
  The values that \<^verbatim>\<open>os.environ.get\<close> and \<^verbatim>\<open>json.loads\<close> hand to the program:
  \<^verbatim>\<open>None\<close>, booleans, integers, floats, strings, lists and dictionaries with string
  keys. Text is a \<^typ>\<open>string\<close>; a dictionary is the list of its items in insertion order.
  A float is kept as mantissa and binary exponent, or one of the three special values
  that \<^verbatim>\<open>json.loads\<close> accepts.
\<close>

datatype pyfloat = Finite int int | Infinity bool | NaN

datatype pyval =
    PNone
  | PBool bool
  | PInt int
  | PFloat pyfloat
  | PStr string
  | PList "pyval list"
  | PDict "(string \<times> pyval) list"

text \<open>Truth value testing, as \<^verbatim>\<open>if x:\<close> and \<^verbatim>\<open>all([...])\<close> apply it.\<close>

fun float_truthy :: "pyfloat \<Rightarrow> bool" where
  "float_truthy (Finite m e) = (m \<noteq> 0)"
| "float_truthy (Infinity s) = True"
| "float_truthy NaN = True"

fun truthy :: "pyval \<Rightarrow> bool" where
  "truthy PNone = False"
| "truthy (PBool b) = b"
| "truthy (PInt i) = (i \<noteq> 0)"
| "truthy (PFloat f) = float_truthy f"
| "truthy (PStr s) = (s \<noteq> [])"
| "truthy (PList xs) = (xs \<noteq> [])"
| "truthy (PDict kvs) = (kvs \<noteq> [])"

definition py_all :: "pyval list \<Rightarrow> bool" where
  "py_all xs = list_all truthy xs"

section \<open>The process environment\<close>

type_synonym environ = "string \<Rightarrow> string option"

text \<open>\<^verbatim>\<open>os.environ.get(key)\<close>: the value, or \<^verbatim>\<open>None\<close> when the variable is not set.\<close>

definition environ_get :: "environ \<Rightarrow> string \<Rightarrow> pyval" where
  "environ_get env key = (case env key of None \<Rightarrow> PNone | Some v \<Rightarrow> PStr v)"

text \<open>\<^verbatim>\<open>os.environ.get(key, default)\<close>.\<close>

definition environ_get_default :: "environ \<Rightarrow> string \<Rightarrow> string \<Rightarrow> string" where
  "environ_get_default env key dflt = (case env key of None \<Rightarrow> dflt | Some v \<Rightarrow> v)"

section \<open>Exceptions, Deferreds and generators\<close>

text \<open>
  An instance of a subclass of \<^verbatim>\<open>Exception\<close>, named by its class. What a Python
  statement can raise is such an instance, or Twisted's \<^verbatim>\<open>_DefGen_Return\<close>, the
  \<^verbatim>\<open>BaseException\<close> by which \<^verbatim>\<open>defer.returnValue\<close> leaves a generator; a clause
  \<^verbatim>\<open>except Exception\<close> catches the first and lets the second pass.
\<close>

datatype pyexc = PyException string

datatype raised = Exc pyexc | DefGen_Return pyval

text \<open>
  A Deferred as the generator sees it at a \<^verbatim>\<open>yield\<close>: fired with a result, failed with
  an exception, or never fired (the remote end does not answer and no timeout is set).
\<close>

datatype 'a deferred = Callback 'a | Errback pyexc | Unfired

text \<open>
  How the body of a generator function ends: it returns a value, it raises, or it stays
  suspended at a \<^verbatim>\<open>yield\<close> for ever.
\<close>

datatype 'a flow = Normal 'a | Raise raised | Suspended

text \<open>
  \<^verbatim>\<open>@defer.inlineCallbacks\<close>: the Deferred a decorated generator function hands to its
  caller. A plain \<^verbatim>\<open>return\<close> and \<^verbatim>\<open>returnValue\<close> both fire it; any other exception
  that leaves the generator fails it.
\<close>

fun inlineCallbacks :: "pyval flow \<Rightarrow> pyval deferred" where
  "inlineCallbacks (Normal v) = Callback v"
| "inlineCallbacks (Raise (DefGen_Return v)) = Callback v"
| "inlineCallbacks (Raise (Exc e)) = Errback e"
| "inlineCallbacks Suspended = Unfired"

section \<open>The request\<close>

record JSONProducer =
  body :: string
  length_body :: nat

definition JSONProducer_init :: "string \<Rightarrow> JSONProducer" where
  "JSONProducer_init b = \<lparr> body = b, length_body = length b \<rparr>"

record request =
  http_method :: string
  uri :: string
  headers :: "(string \<times> string list) list"
  bodyProducer :: JSONProducer

text \<open>\<^verbatim>\<open>str(n)\<close> for a length: the decimal digits.\<close>

fun str_nat :: "nat \<Rightarrow> string" where
  "str_nat n = (if n < 10 then [char_of (48 + n)]
                else str_nat (n div 10) @ [char_of (48 + n mod 10)])"

declare str_nat.simps [simp del]

text \<open>
  What the program calls and does not define: the UTF-8 encoder and decoder, the JSON
  codec, and the network, which answers a request with a response object of type
  \<^typ>\<open>'r\<close> and then with its body. Text and byte strings are both \<^typ>\<open>string\<close>s.
  Encoding, decoding and parsing can raise. \<open>json_dumps\<close> stands for
  \<^verbatim>\<open>json.dumps(payload).encode("utf-8")\<close>: the text \<^verbatim>\<open>json.dumps\<close> returns for a
  dictionary with one string key and one string value is ASCII, so neither step raises.
\<close>

record 'r runtime =
  encode_utf8 :: "string \<Rightarrow> pyexc + string"
  json_dumps :: "pyval \<Rightarrow> string"
  agent_request :: "request \<Rightarrow> 'r deferred"
  readBody :: "'r \<Rightarrow> string deferred"
  decode_utf8 :: "string \<Rightarrow> pyexc + string"
  json_loads :: "string \<Rightarrow> pyexc + pyval"

text \<open>
  \<^verbatim>\<open>x.get(key, default)\<close>: defined on dictionaries (whose keys are distinct); the other
  values \<^verbatim>\<open>json.loads\<close> returns have no such attribute.
\<close>

fun py_get :: "pyval \<Rightarrow> string \<Rightarrow> pyval \<Rightarrow> pyexc + pyval" where
  "py_get (PDict kvs) key dflt = (case map_of kvs key of None \<Rightarrow> Inr dflt | Some v \<Rightarrow> Inr v)"
| "py_get v key dflt = Inl (PyException ''AttributeError'')"

section \<open>The client and its configuration\<close>

text \<open>
  \<^verbatim>\<open>LLMCacheClient\<close> of \<^verbatim>\<open>cowrie/core/llm_cache.py\<close>. The constructor reads the three
  variables with their defaults, encodes the address composed of the defaulted values
  into \<^verbatim>\<open>full_url\<close>, and computes \<^verbatim>\<open>enabled\<close> from the raw values. The encoding stands
  outside any \<^verbatim>\<open>try\<close>: when it raises, the constructor raises and there is no client.
  The log line is not modelled; it decodes the bytes just encoded and cannot fail.
\<close>

record LLMCacheClient =
  url :: string
  port :: string
  endpoint :: string
  full_url :: string
  enabled :: bool

definition LLMCacheClient_init :: "'r runtime \<Rightarrow> environ \<Rightarrow> pyexc + LLMCacheClient" where
  "LLMCacheClient_init rt env =
     (let u = environ_get_default env ''LLM_CACHE_URL'' ''http://localhost'';
          p = environ_get_default env ''LLM_CACHE_PORT'' ''8080'';
          e = environ_get_default env ''LLM_CACHE_ENDPOINT'' ''/query''
      in case encode_utf8 rt (u @ '':'' @ p @ e) of
           Inl err \<Rightarrow> Inl err
         | Inr bytes \<Rightarrow>
             Inr \<lparr> url = u, port = p, endpoint = e,
                   full_url = bytes,
                   enabled = py_all [environ_get env ''LLM_CACHE_URL'',
                                     environ_get env ''LLM_CACHE_PORT'',
                                     environ_get env ''LLM_CACHE_ENDPOINT''] \<rparr>)"

text \<open>
  The module's singleton: the holder is \<^verbatim>\<open>None\<close> until the first call that builds a
  client. When the constructor raises, the holder stays as it is and the caller sees
  the exception.
\<close>

definition get_llm_cache_client ::
  "'r runtime \<Rightarrow> environ \<Rightarrow> LLMCacheClient option
     \<Rightarrow> pyexc + (LLMCacheClient \<times> LLMCacheClient option)" where
  "get_llm_cache_client rt env holder =
     (case holder of
        None \<Rightarrow>
          (case LLMCacheClient_init rt env of
             Inl err \<Rightarrow> Inl err
           | Inr c \<Rightarrow> Inr (c, Some c))
      | Some c \<Rightarrow> Inr (c, Some c))"

section \<open>query\_command\<close>

definition build_request :: "LLMCacheClient \<Rightarrow> string \<Rightarrow> request" where
  "build_request self json_data =
     (let body_producer = JSONProducer_init json_data;
          hs = [(''Content-Type'', [''application/json'']),
                (''Content-Length'', [str_nat (length json_data)])]
      in \<lparr> http_method = ''POST'', uri = full_url self, headers = hs,
           bodyProducer = body_producer \<rparr>)"

text \<open>
  The \<^verbatim>\<open>try\<close> block of \<^verbatim>\<open>query_command\<close>, with the requests issued so far threaded
  through. Its last statement is \<^verbatim>\<open>defer.returnValue\<close>, so it never ends normally.
\<close>

definition try_block ::
  "'r runtime \<Rightarrow> LLMCacheClient \<Rightarrow> string \<Rightarrow> request list \<Rightarrow> pyval flow \<times> request list" where
  "try_block rt self command sent0 =
     (let payload = PDict [(''content'', PStr command)];
          json_data = json_dumps rt payload;
          req = build_request self json_data;
          sent1 = sent0 @ [req]
      in case agent_request rt req of
           Unfired \<Rightarrow> (Suspended, sent1)
         | Errback e \<Rightarrow> (Raise (Exc e), sent1)
         | Callback response \<Rightarrow>
            (case readBody rt response of
               Unfired \<Rightarrow> (Suspended, sent1)
             | Errback e \<Rightarrow> (Raise (Exc e), sent1)
             | Callback bytes \<Rightarrow>
                (case decode_utf8 rt bytes of
                   Inl e \<Rightarrow> (Raise (Exc e), sent1)
                 | Inr txt \<Rightarrow>
                    (case json_loads rt txt of
                       Inl e \<Rightarrow> (Raise (Exc e), sent1)
                     | Inr response_data \<Rightarrow>
                        (case py_get response_data ''response'' (PStr []) of
                           Inl e \<Rightarrow> (Raise (Exc e), sent1)
                         | Inr llm_response \<Rightarrow>
                            (Raise (DefGen_Return llm_response), sent1))))))"

text \<open>\<^verbatim>\<open>except Exception as e: log.err(...); defer.returnValue(None)\<close>.\<close>

fun except_Exception :: "pyval flow \<Rightarrow> pyval flow" where
  "except_Exception (Raise (Exc e)) = Raise (DefGen_Return PNone)"
| "except_Exception f = f"

text \<open>The generator function, then the decorated method.\<close>

definition query_command_gen ::
  "'r runtime \<Rightarrow> LLMCacheClient \<Rightarrow> string \<Rightarrow> request list \<Rightarrow> pyval flow \<times> request list" where
  "query_command_gen rt self command sent0 =
     (if \<not> enabled self then (Normal PNone, sent0)
      else case try_block rt self command sent0 of
             (Normal v, sent1) \<Rightarrow> (Normal PNone, sent1)
           | (f, sent1) \<Rightarrow> (except_Exception f, sent1))"

definition query_command ::
  "'r runtime \<Rightarrow> LLMCacheClient \<Rightarrow> string \<Rightarrow> request list \<Rightarrow> pyval deferred \<times> request list" where
  "query_command rt self command sent0 =
     (case query_command_gen rt self command sent0 of (f, sent1) \<Rightarrow> (inlineCallbacks f, sent1))"

section \<open>The fallback command handler\<close>

text \<open>\<^verbatim>\<open>sep.join(parts)\<close> and \<^verbatim>\<open>s.endswith(suffix)\<close>.\<close>

fun join :: "string \<Rightarrow> string list \<Rightarrow> string" where
  "join sep [] = []"
| "join sep [x] = x"
| "join sep (x # y # ys) = x @ sep @ join sep (y # ys)"

definition endswith :: "string \<Rightarrow> string \<Rightarrow> bool" where
  "endswith s suffix =
     (length suffix \<le> length s \<and> drop (length s - length suffix) s = suffix)"

text \<open>
  What the handler can change: the singleton holder, the requests issued, the chunks
  written to the terminal, and whether the command has exited.
\<close>

record sys =
  holder :: "LLMCacheClient option"
  sent :: "request list"
  written :: "string list"
  exited :: bool

definition write_terminal :: "sys \<Rightarrow> string \<Rightarrow> sys" where
  "write_terminal s data = s\<lparr> written := written s @ [data] \<rparr>"

definition exit_command :: "sys \<Rightarrow> sys" where
  "exit_command s = s\<lparr> exited := True \<rparr>"

text \<open>
  The decision of \<^verbatim>\<open>Command_llm.start\<close> on the value the query delivered. A true
  value that is not a string has no \<^verbatim>\<open>endswith\<close>: the handler raises there at the
  latest, and what it wrote before is not recorded.
\<close>

definition respond :: "string \<Rightarrow> pyval \<Rightarrow> sys \<Rightarrow> pyval flow \<times> sys" where
  "respond name response s =
     (if truthy response then
        (case response of
           PStr r \<Rightarrow>
             (let s1 = write_terminal s r;
                  s2 = (if \<not> endswith r ''\<newline>'' then write_terminal s1 ''\<newline>'' else s1)
              in (Normal PNone, exit_command s2))
         | _ \<Rightarrow> (Raise (Exc (PyException ''AttributeError'')), s))
      else
        (Normal PNone,
         exit_command (write_terminal s (''bash: '' @ name @ '': command not found\<newline>''))))"

text \<open>
  \<^verbatim>\<open>Command_llm.start\<close> from the call of \<^verbatim>\<open>get_llm_cache_client\<close> on, given the command
  line it has put together; then the whole generator function, and the decorated method.
  The call of \<^verbatim>\<open>get_llm_cache_client\<close> stands outside any \<^verbatim>\<open>try\<close>: an exception of the
  constructor leaves \<^verbatim>\<open>start\<close> before anything is sent or written.
\<close>

definition query_and_respond ::
  "'r runtime \<Rightarrow> environ \<Rightarrow> string \<Rightarrow> string \<Rightarrow> sys \<Rightarrow> pyval flow \<times> sys" where
  "query_and_respond rt env name full_command s =
     (case get_llm_cache_client rt env (holder s) of
        Inl err \<Rightarrow> (Raise (Exc err), s)
      | Inr (llm_client, h) \<Rightarrow>
          (case query_command rt llm_client full_command (sent s) of
             (d, sent1) \<Rightarrow>
               (let s1 = s\<lparr> holder := h, sent := sent1 \<rparr>
                in case d of
                     Unfired \<Rightarrow> (Suspended, s1)
                   | Errback e \<Rightarrow> (Raise (Exc e), s1)
                   | Callback response \<Rightarrow> respond name response s1)))"

definition start_gen ::
  "'r runtime \<Rightarrow> environ \<Rightarrow> string \<Rightarrow> string list \<Rightarrow> sys \<Rightarrow> pyval flow \<times> sys" where
  "start_gen rt env name args s =
     (let cmd_parts = [name] @ args;
          full_command = join '' '' cmd_parts
      in query_and_respond rt env name full_command s)"

definition start ::
  "'r runtime \<Rightarrow> environ \<Rightarrow> string \<Rightarrow> string list \<Rightarrow> sys \<Rightarrow> pyval deferred \<times> sys" where
  "start rt env name args s =
     (case start_gen rt env name args s of (f, s1) \<Rightarrow> (inlineCallbacks f, s1))"

definition sys0 :: sys where
  "sys0 = \<lparr> holder = None, sent = [], written = [], exited = False \<rparr>"

section \<open>Example environments\<close>

text \<open>
  In the last two, \<^verbatim>\<open>LLM_CACHE_URL\<close> holds the single byte 0xFF, which is not UTF-8:
  \<^verbatim>\<open>os.environ\<close> presents it as a lone surrogate, a character that UTF-8 cannot encode.
\<close>

definition env_unset :: environ where
  "env_unset = (\<lambda>k. None)"

definition env_full :: environ where
  "env_full = [''LLM_CACHE_URL'' \<mapsto> ''http://10.0.0.5'',
               ''LLM_CACHE_PORT'' \<mapsto> ''9000'',
               ''LLM_CACHE_ENDPOINT'' \<mapsto> ''/ask'']"

definition env_empty_url :: environ where
  "env_empty_url = [''LLM_CACHE_URL'' \<mapsto> '''',
                    ''LLM_CACHE_PORT'' \<mapsto> ''9000'',
                    ''LLM_CACHE_ENDPOINT'' \<mapsto> ''/ask'']"

definition env_no_port :: environ where
  "env_no_port = [''LLM_CACHE_URL'' \<mapsto> ''http://10.0.0.5'',
                  ''LLM_CACHE_ENDPOINT'' \<mapsto> ''/ask'']"

definition env_bad_url :: environ where
  "env_bad_url = [''LLM_CACHE_URL'' \<mapsto> [CHR 0xFF],
                  ''LLM_CACHE_ENDPOINT'' \<mapsto> ''/ask'']"

definition env_bad_url_empty_port :: environ where
  "env_bad_url_empty_port = [''LLM_CACHE_URL'' \<mapsto> [CHR 0xFF],
                             ''LLM_CACHE_PORT'' \<mapsto> '''',
                             ''LLM_CACHE_ENDPOINT'' \<mapsto> ''/ask'']"

text \<open>The clients that the constructor builds from the first three environments.\<close>

definition client_unset :: LLMCacheClient where
  "client_unset =
     \<lparr> url = ''http://localhost'', port = ''8080'', endpoint = ''/query'',
       full_url = ''http://localhost:8080/query'', enabled = False \<rparr>"

definition client_full :: LLMCacheClient where
  "client_full =
     \<lparr> url = ''http://10.0.0.5'', port = ''9000'', endpoint = ''/ask'',
       full_url = ''http://10.0.0.5:9000/ask'', enabled = True \<rparr>"

definition client_empty_url :: LLMCacheClient where
  "client_empty_url =
     \<lparr> url = [], port = ''9000'', endpoint = ''/ask'',
       full_url = '':9000/ask'', enabled = False \<rparr>"

section \<open>Example runtimes\<close>

text \<open>
  Stand-ins for the library in the examples. \<open>encode_ascii\<close> returns ASCII text as
  it is, as \<^verbatim>\<open>str.encode("utf-8")\<close> does, and refuses every other text; of these only the
  text of the byte 0xFF occurs in the examples, and the encoder refuses its lone surrogate
  as well. \<open>dumps_plain\<close> is
  \<^verbatim>\<open>json.dumps\<close> on a one-item dictionary whose key and value need no escaping;
  \<open>loads_table\<close> is \<^verbatim>\<open>json.loads\<close> on five bodies and takes every other text as
  unparseable.
\<close>

definition encode_ascii :: "string \<Rightarrow> pyexc + string" where
  "encode_ascii t =
     (if list_all (\<lambda>c. (of_char c :: nat) < 128) t then Inr t
      else Inl (PyException ''UnicodeEncodeError''))"

fun dumps_plain :: "pyval \<Rightarrow> string" where
  \<open>dumps_plain (PDict [(k, PStr c)]) = ''{"'' @ k @ ''": "'' @ c @ ''"}''\<close>
| \<open>dumps_plain v = ''null''\<close>

definition loads_table :: "string \<Rightarrow> pyexc + pyval" where
  \<open>loads_table t =
     (if t = ''{"response": "foobar: permission denied"}''
        then Inr (PDict [(''response'', PStr ''foobar: permission denied'')])
      else if t = ''{"response": 42}'' then Inr (PDict [(''response'', PInt 42)])
      else if t = ''{"status": "ok"}'' then Inr (PDict [(''status'', PStr ''ok'')])
      else if t = ''{}'' then Inr (PDict [])
      else if t = ''[]'' then Inr (PList [])
      else Inl (PyException ''JSONDecodeError''))\<close>

text \<open>A service that answers every request with the given body.\<close>

definition rt_serving :: "string \<Rightarrow> unit runtime" where
  "rt_serving reply =
     \<lparr> encode_utf8 = encode_ascii,
       json_dumps = dumps_plain,
       agent_request = (\<lambda>req. Callback ()),
       readBody = (\<lambda>r. Callback reply),
       decode_utf8 = Inr,
       json_loads = loads_table \<rparr>"

text \<open>A service that refuses the connection, and one that never answers.\<close>

definition rt_refused :: "unit runtime" where
  "rt_refused =
     \<lparr> encode_utf8 = encode_ascii,
       json_dumps = dumps_plain,
       agent_request = (\<lambda>req. Errback (PyException ''ConnectionRefusedError'')),
       readBody = (\<lambda>r. Unfired),
       decode_utf8 = Inr,
       json_loads = loads_table \<rparr>"

definition rt_silent :: "unit runtime" where
  "rt_silent =
     \<lparr> encode_utf8 = encode_ascii,
       json_dumps = dumps_plain,
       agent_request = (\<lambda>req. Unfired),
       readBody = (\<lambda>r. Unfired),
       decode_utf8 = Inr,
       json_loads = loads_table \<rparr>"

section \<open>Configuration\<close>

lemma LLMCacheClient_init_Inr:
  assumes "encode_utf8 rt (environ_get_default env ''LLM_CACHE_URL'' ''http://localhost'' @ '':'' @
                          environ_get_default env ''LLM_CACHE_PORT'' ''8080'' @
                          environ_get_default env ''LLM_CACHE_ENDPOINT'' ''/query'') = Inr bytes"
  shows "LLMCacheClient_init rt env =
           Inr \<lparr> url = environ_get_default env ''LLM_CACHE_URL'' ''http://localhost'',
                 port = environ_get_default env ''LLM_CACHE_PORT'' ''8080'',
                 endpoint = environ_get_default env ''LLM_CACHE_ENDPOINT'' ''/query'',
                 full_url = bytes,
                 enabled = py_all [environ_get env ''LLM_CACHE_URL'',
                                   environ_get env ''LLM_CACHE_PORT'',
                                   environ_get env ''LLM_CACHE_ENDPOINT''] \<rparr>"
  using assms by (simp add: LLMCacheClient_init_def Let_def)

lemma LLMCacheClient_init_Inl:
  assumes "encode_utf8 rt (environ_get_default env ''LLM_CACHE_URL'' ''http://localhost'' @ '':'' @
                          environ_get_default env ''LLM_CACHE_PORT'' ''8080'' @
                          environ_get_default env ''LLM_CACHE_ENDPOINT'' ''/query'') = Inl err"
  shows "LLMCacheClient_init rt env = Inl err"
  using assms by (simp add: LLMCacheClient_init_def Let_def)

lemma enabled_init:
  assumes "LLMCacheClient_init rt env = Inr c"
  shows "enabled c =
     (truthy (environ_get env ''LLM_CACHE_URL'') \<and>
      truthy (environ_get env ''LLM_CACHE_PORT'') \<and>
      truthy (environ_get env ''LLM_CACHE_ENDPOINT''))"
  using assms
  by (auto simp add: LLMCacheClient_init_def py_all_def Let_def split: sum.splits)

lemma truthy_environ_get:
  "truthy (environ_get env k) = (\<exists>v. env k = Some v \<and> v \<noteq> [])"
  by (cases "env k") (simp_all add: environ_get_def)

lemma environ_get_default_case:
  "environ_get_default env k d = (case env k of None \<Rightarrow> d | Some v \<Rightarrow> v)"
  by (simp add: environ_get_default_def)

section \<open>The query never fails, and what it delivers\<close>

lemma try_block_sent:
  "snd (try_block rt self command sent0) =
     sent0 @ [build_request self (json_dumps rt (PDict [(''content'', PStr command)]))]"
  by (simp add: try_block_def Let_def split: deferred.splits sum.splits)

lemma try_block_not_Normal: "fst (try_block rt self command sent0) \<noteq> Normal v"
  by (simp add: try_block_def Let_def split: deferred.splits sum.splits)

lemma except_Exception_no_Exc: "except_Exception f \<noteq> Raise (Exc e)"
  by (cases f rule: except_Exception.cases) simp_all

lemma inlineCallbacks_Errback: "(inlineCallbacks f = Errback e) = (f = Raise (Exc e))"
  by (cases f rule: inlineCallbacks.cases) simp_all

lemma query_command_gen_no_Exc: "fst (query_command_gen rt self command sent0) \<noteq> Raise (Exc e)"
  by (simp add: query_command_gen_def except_Exception_no_Exc split: prod.splits flow.splits)

lemma query_command_no_Errback: "fst (query_command rt self command sent0) \<noteq> Errback e"
  using query_command_gen_no_Exc [of rt self command sent0 e]
  by (auto simp add: query_command_def inlineCallbacks_Errback split: prod.splits)

lemma query_command_not_enabled:
  "\<not> enabled self \<Longrightarrow> query_command rt self command sent0 = (Callback PNone, sent0)"
  by (simp add: query_command_def query_command_gen_def)

lemma query_command_reply:
  assumes "enabled self"
    and "agent_request rt (build_request self (json_dumps rt (PDict [(''content'', PStr command)])))
           = Callback response"
    and "readBody rt response = Callback bytes"
    and "decode_utf8 rt bytes = Inr txt"
    and "json_loads rt txt = Inr response_data"
  shows "fst (query_command rt self command sent0) =
           (case py_get response_data ''response'' (PStr []) of
              Inl e \<Rightarrow> Callback PNone | Inr v \<Rightarrow> Callback v)"
  using assms
  by (simp add: query_command_def query_command_gen_def try_block_def Let_def split: sum.splits)

lemma query_command_failure:
  assumes "enabled self"
    and "agent_request rt (build_request self (json_dumps rt (PDict [(''content'', PStr command)])))
           = Errback e
         \<or> (\<exists>r. agent_request rt (build_request self (json_dumps rt (PDict [(''content'', PStr command)]))) = Callback r
              \<and> (readBody rt r = Errback e
                  \<or> (\<exists>b. readBody rt r = Callback b \<and> (decode_utf8 rt b = Inl e
                       \<or> (\<exists>t. decode_utf8 rt b = Inr t \<and> (json_loads rt t = Inl e
                            \<or> (\<exists>v. json_loads rt t = Inr v \<and> py_get v ''response'' (PStr []) = Inl e)))))))"
  shows "fst (query_command rt self command sent0) = Callback PNone"
  using assms
  by (auto simp add: query_command_def query_command_gen_def try_block_def Let_def)

lemma join_space: "join '' '' (name # args) = name @ concat (map (\<lambda>a. '' '' @ a) args)"
  by (induction args arbitrary: name) simp_all

lemma endswith_newline: "endswith r ''\<newline>'' = (r \<noteq> [] \<and> last r = CHR 0x0A)"
proof (cases r rule: rev_cases)
  case Nil then show ?thesis by (simp add: endswith_def)
next
  case (snoc ys y) then show ?thesis by (simp add: endswith_def)
qed

lemma start_Callback:
  assumes "get_llm_cache_client rt env (holder s) = Inr (llm_client, h)"
    and "fst (query_command rt llm_client (join '' '' ([name] @ args)) (sent s)) = Callback response"
  shows "start rt env name args s =
           (case respond name response
                   (s\<lparr> holder := h,
                      sent := snd (query_command rt llm_client
                                     (join '' '' ([name] @ args)) (sent s)) \<rparr>)
            of (f, s1) \<Rightarrow> (inlineCallbacks f, s1))"
  using assms
  by (simp add: start_def start_gen_def query_and_respond_def Let_def case_prod_beta)

lemma start_no_client:
  assumes "get_llm_cache_client rt env (holder s) = Inl err"
  shows "start rt env name args s = (Errback err, s)"
  using assms by (simp add: start_def start_gen_def query_and_respond_def Let_def)

lemma respond_fallback:
  "response = PNone \<or> response = PStr [] \<Longrightarrow>
   respond name response s =
     (Normal PNone,
      exit_command (write_terminal s (''bash: '' @ name @ '': command not found\<newline>'')))"
  by (auto simp add: respond_def)

lemma respond_text:
  "r \<noteq> [] \<Longrightarrow>
   respond name (PStr r) s =
     (Normal PNone,
      exit_command (if last r = CHR 0x0A then write_terminal s r
                    else write_terminal (write_terminal s r) ''\<newline>''))"
  by (simp add: respond_def endswith_newline Let_def)

lemma query_command_sent:
  "snd (query_command rt self command sent0) =
     (if enabled self
      then sent0 @ [build_request self (json_dumps rt (PDict [(''content'', PStr command)]))]
      else sent0)"
  using try_block_sent [of rt self command sent0]
  by (simp add: query_command_def query_command_gen_def case_prod_beta split: flow.splits)

lemma respond_sent: "sent (snd (respond name response s)) = sent s"
  by (simp add: respond_def write_terminal_def exit_command_def Let_def split: pyval.splits)

lemma start_sent:
  "sent (snd (start rt env name args s)) =
     (case get_llm_cache_client rt env (holder s) of
        Inl err \<Rightarrow> sent s
      | Inr (llm_client, h) \<Rightarrow>
          snd (query_command rt llm_client (join '' '' ([name] @ args)) (sent s)))"
  by (simp add: start_def start_gen_def query_and_respond_def Let_def case_prod_beta respond_sent
           split: deferred.splits sum.splits)

section \<open>The four scenarios\<close>

lemma scenario_permission_denied:
  \<open>start (rt_serving ''{"response": "foobar: permission denied"}'') env_full ''foobar'' [''-x''] sys0
     = (Callback PNone,
        \<lparr> holder = Some client_full,
          sent = [build_request client_full ''{"content": "foobar -x"}''],
          written = [''foobar: permission denied'', ''\<newline>''], exited = True \<rparr>)\<close>
  by code_simp

lemma scenario_disabled:
  "start rt_silent env_unset ''zork'' [] sys0
     = (Callback PNone,
        \<lparr> holder = Some client_unset, sent = [],
          written = [''bash: zork: command not found\<newline>''], exited = True \<rparr>)"
  by code_simp

lemma scenario_refused:
  "written (snd (start rt_refused env_full ''ls'' [''-z''] sys0))
     = [''bash: ls: command not found\<newline>'']"
  by code_simp

lemma scenario_malformed_body:
  "fst (start (rt_serving ''<html>'') env_full ''echo'' [''hi''] sys0) = Callback PNone \<and>
   written (snd (start (rt_serving ''<html>'') env_full ''echo'' [''hi''] sys0))
     = [''bash: echo: command not found\<newline>'']"
  by code_simp

text \<open>Two more: the service never answers, and the address cannot be encoded.\<close>

lemma scenario_no_answer:
  "fst (start rt_silent env_full ''echo'' [''hi''] sys0) = Unfired \<and>
   written (snd (start rt_silent env_full ''echo'' [''hi''] sys0)) = [] \<and>
   \<not> exited (snd (start rt_silent env_full ''echo'' [''hi''] sys0))"
  by code_simp

lemma scenario_no_client:
  "start rt_silent env_bad_url ''echo'' [''hi''] sys0
     = (Errback (PyException ''UnicodeEncodeError''), sys0)"
  by code_simp

lemma join_keeps_tokens: "join '' '' [''echo'', ''a  b'', [], ''c''] = ''echo a  b  c''"
  by simp

section \<open>The client\<close>

text \<open>
  C1. The query is to deliver a string or \<^verbatim>\<open>None\<close> on every path. No exception leaves
  it (\<open>query_command_no_Errback\<close>) and every failure of the request, the body, the
  decoding or the parsing gives \<^verbatim>\<open>None\<close> (\<open>query_command_failure\<close>); but for the reply
  \<^verbatim>\<open>{"response": 42}\<close> to an enabled client the query delivers the integer 42, which is
  neither, and \<^verbatim>\<open>start\<close> then fails with an \<^verbatim>\<open>AttributeError\<close>.
\<close>

theorem query_command_non_string_response:
  \<open>LLMCacheClient_init (rt_serving ''{"response": 42}'') env_full = Inr client_full \<and>
   fst (query_command (rt_serving ''{"response": 42}'') client_full ''uptime'' [])
     = Callback (PInt 42) \<and>
   fst (start (rt_serving ''{"response": 42}'') env_full ''uptime'' [] sys0)
     = Errback (PyException ''AttributeError'')\<close>
  by code_simp

text \<open>
  C2. For every command, a client whose \<^verbatim>\<open>enabled\<close> flag is false delivers \<^verbatim>\<open>None\<close> at once,
  whatever the network would do, and the list of requests issued is unchanged.
\<close>

theorem query_command_disabled:
  assumes "\<not> enabled self"
  shows "query_command rt self command sent0 = (Callback PNone, sent0)"
  using assms by (simp add: query_command_def query_command_gen_def)

theorem query_command_disabled_witness:
  "LLMCacheClient_init rt_silent env_unset = Inr client_unset \<and>
   \<not> enabled client_unset \<and>
   query_command rt_silent client_unset ''zork'' [] = (Callback PNone, [])"
proof -
  have c: "LLMCacheClient_init rt_silent env_unset = Inr client_unset" by code_simp
  have h: "\<not> enabled client_unset" by (simp add: client_unset_def)
  show ?thesis using c h query_command_disabled [OF h] by simp
qed

text \<open>
  C3. For every command sent by an enabled client: when the reply's body decodes and parses
  to a dictionary that maps the key \<^verbatim>\<open>response\<close> to the string \<open>x\<close>, the query delivers
  exactly \<open>x\<close>.
\<close>

theorem query_command_response_text:
  assumes "enabled self"
    and "agent_request rt (build_request self (json_dumps rt (PDict [(''content'', PStr command)])))
           = Callback response"
    and "readBody rt response = Callback bytes"
    and "decode_utf8 rt bytes = Inr txt"
    and "json_loads rt txt = Inr (PDict kvs)"
    and "map_of kvs ''response'' = Some (PStr x)"
  shows "fst (query_command rt self command sent0) = Callback (PStr x)"
  using assms(6) by (simp add: query_command_reply [OF assms(1-5)])

theorem query_command_response_text_witness:
  \<open>LLMCacheClient_init (rt_serving ''{"response": "foobar: permission denied"}'') env_full =
     Inr client_full \<and>
   enabled client_full \<and>
   readBody (rt_serving ''{"response": "foobar: permission denied"}'') () =
     Callback ''{"response": "foobar: permission denied"}'' \<and>
   json_loads (rt_serving ''{"response": "foobar: permission denied"}'')
       ''{"response": "foobar: permission denied"}'' =
     Inr (PDict [(''response'', PStr ''foobar: permission denied'')]) \<and>
   fst (query_command (rt_serving ''{"response": "foobar: permission denied"}'')
          client_full ''foobar -x'' []) =
     Callback (PStr ''foobar: permission denied'')\<close>
proof -
  let ?b = \<open>''{"response": "foobar: permission denied"}''\<close>
  let ?rt = "rt_serving ?b"
  have c: "LLMCacheClient_init ?rt env_full = Inr client_full" by code_simp
  have h1: "enabled client_full" by (simp add: client_full_def)
  have h2: "agent_request ?rt
              (build_request client_full (json_dumps ?rt (PDict [(''content'', PStr ''foobar -x'')])))
              = Callback ()"
    by (simp add: rt_serving_def)
  have h3: "readBody ?rt () = Callback ?b" by (simp add: rt_serving_def)
  have h4: "decode_utf8 ?rt ?b = Inr ?b" by (simp add: rt_serving_def)
  have h5: "json_loads ?rt ?b = Inr (PDict [(''response'', PStr ''foobar: permission denied'')])"
    by (simp add: rt_serving_def loads_table_def)
  have h6: "map_of [(''response'', PStr ''foobar: permission denied'')] ''response''
              = Some (PStr ''foobar: permission denied'')" by simp
  show ?thesis using c h1 h3 h5 query_command_response_text [OF h1 h2 h3 h4 h5 h6] by simp
qed

text \<open>
  C4, as stated, fails for a body that is valid JSON and not an object: the reply \<^verbatim>\<open>[]\<close>
  parses to the empty list, which has no key \<^verbatim>\<open>response\<close> and no method \<^verbatim>\<open>get\<close>, and the
  query delivers \<^verbatim>\<open>None\<close>, not the empty string.
\<close>

theorem non_object_reply_is_absent:
  \<open>LLMCacheClient_init (rt_serving ''[]'') env_full = Inr client_full \<and>
   json_loads (rt_serving ''[]'') ''[]'' = Inr (PList []) \<and>
   py_get (PList []) ''response'' (PStr []) = Inl (PyException ''AttributeError'') \<and>
   fst (query_command (rt_serving ''[]'') client_full ''echo hi'' []) = Callback PNone \<and>
   fst (query_command (rt_serving ''[]'') client_full ''echo hi'' []) \<noteq> Callback (PStr [])\<close>
  by code_simp

text \<open>
  C4, amended. For every reply whose body parses to a dictionary without the key
  \<^verbatim>\<open>response\<close>, the query that \<^verbatim>\<open>start\<close> makes delivers the empty string, and \<^verbatim>\<open>start\<close>
  writes the not-found line rather than blank output.
\<close>

theorem missing_response_key_falls_back:
  assumes "get_llm_cache_client rt env (holder s) = Inr (llm_client, h)"
    and "enabled llm_client"
    and "agent_request rt
           (build_request llm_client
              (json_dumps rt (PDict [(''content'', PStr (join '' '' ([name] @ args)))])))
           = Callback response"
    and "readBody rt response = Callback bytes"
    and "decode_utf8 rt bytes = Inr txt"
    and "json_loads rt txt = Inr (PDict kvs)"
    and "map_of kvs ''response'' = None"
  shows "fst (query_command rt llm_client (join '' '' ([name] @ args)) (sent s))
           = Callback (PStr []) \<and>
         written (snd (start rt env name args s)) =
           written s @ [''bash: '' @ name @ '': command not found\<newline>'']"
proof -
  have q: "fst (query_command rt llm_client (join '' '' ([name] @ args)) (sent s))
             = Callback (PStr [])"
    using assms(7) query_command_reply [OF assms(2-6), of "sent s"] by simp
  have "written (snd (start rt env name args s)) =
          written s @ [''bash: '' @ name @ '': command not found\<newline>'']"
    unfolding start_Callback [OF assms(1) q]
    by (simp add: respond_fallback write_terminal_def exit_command_def)
  with q show ?thesis by simp
qed

theorem missing_response_key_falls_back_witness:
  \<open>get_llm_cache_client (rt_serving ''{"status": "ok"}'') env_full (holder sys0) =
     Inr (client_full, Some client_full) \<and>
   json_loads (rt_serving ''{"status": "ok"}'') ''{"status": "ok"}'' =
     Inr (PDict [(''status'', PStr ''ok'')]) \<and>
   map_of [(''status'', PStr ''ok'')] ''response'' = None \<and>
   fst (query_command (rt_serving ''{"status": "ok"}'') client_full
          (join '' '' ([''echo''] @ [''hi''])) (sent sys0)) = Callback (PStr []) \<and>
   written (snd (start (rt_serving ''{"status": "ok"}'') env_full ''echo'' [''hi''] sys0)) =
     [''bash: echo: command not found\<newline>'']\<close>
proof -
  let ?b = \<open>''{"status": "ok"}''\<close>
  let ?rt = "rt_serving ?b"
  have g: "get_llm_cache_client ?rt env_full (holder sys0) = Inr (client_full, Some client_full)"
    by code_simp
  have h1: "enabled client_full" by (simp add: client_full_def)
  have h2: "agent_request ?rt
              (build_request client_full
                 (json_dumps ?rt (PDict [(''content'', PStr (join '' '' ([''echo''] @ [''hi''])))])))
              = Callback ()"
    by (simp add: rt_serving_def)
  have h3: "readBody ?rt () = Callback ?b" by (simp add: rt_serving_def)
  have h4: "decode_utf8 ?rt ?b = Inr ?b" by (simp add: rt_serving_def)
  have h5: "json_loads ?rt ?b = Inr (PDict [(''status'', PStr ''ok'')])"
    by (simp add: rt_serving_def loads_table_def)
  have h6: "map_of [(''status'', PStr ''ok'')] ''response'' = None" by simp
  have w: "written sys0 = []" by (simp add: sys0_def)
  show ?thesis using g h5 h6 w missing_response_key_falls_back [OF g h1 h2 h3 h4 h5 h6] by simp
qed

section \<open>The handler's output\<close>

text \<open>
  C5. Whenever the query that \<^verbatim>\<open>start\<close> makes delivers \<^verbatim>\<open>None\<close> or the empty string,
  the handler writes exactly one chunk, \<^verbatim>\<open>bash: \<close> followed by the command name and
  \<^verbatim>\<open>: command not found\<close> with a newline, whatever the arguments are, and then exits.
\<close>

theorem start_writes_not_found:
  assumes "get_llm_cache_client rt env (holder s) = Inr (llm_client, h)"
    and "fst (query_command rt llm_client (join '' '' ([name] @ args)) (sent s))
           = Callback response"
    and "response = PNone \<or> response = PStr []"
  shows "fst (start rt env name args s) = Callback PNone \<and>
         written (snd (start rt env name args s)) =
           written s @ [''bash: '' @ name @ '': command not found\<newline>''] \<and>
         exited (snd (start rt env name args s))"
  using assms(3)
  by (simp add: start_Callback [OF assms(1,2)] respond_fallback write_terminal_def
        exit_command_def)

theorem start_writes_not_found_witness:
  "get_llm_cache_client rt_refused env_full (holder sys0) = Inr (client_full, Some client_full) \<and>
   fst (query_command rt_refused client_full (join '' '' ([''ls''] @ [''-z''])) (sent sys0))
     = Callback PNone \<and>
   written (snd (start rt_refused env_full ''ls'' [''-z''] sys0)) =
     [''bash: ls: command not found\<newline>'']"
proof -
  have g: "get_llm_cache_client rt_refused env_full (holder sys0)
             = Inr (client_full, Some client_full)"
    by code_simp
  have h: "fst (query_command rt_refused client_full (join '' '' ([''ls''] @ [''-z''])) (sent sys0))
             = Callback PNone"
    by code_simp
  have w: "written sys0 = []" by (simp add: sys0_def)
  show ?thesis using g h w start_writes_not_found [OF g h] by simp
qed

text \<open>
  C6. For every non-empty string \<open>r\<close> that the query delivers, \<^verbatim>\<open>start\<close> writes \<open>r\<close> as it
  is, followed by one newline chunk exactly when \<open>r\<close> does not end with a newline. The
  text written is \<open>r\<close> if it ends with a newline and \<open>r\<close> with a newline appended
  otherwise; handing that text to the handler again writes it unchanged.
\<close>

theorem start_newline_terminates_response:
  assumes "get_llm_cache_client rt env (holder s) = Inr (llm_client, h)"
    and "fst (query_command rt llm_client (join '' '' ([name] @ args)) (sent s))
           = Callback (PStr r)"
    and "r \<noteq> []"
  shows "fst (start rt env name args s) = Callback PNone \<and>
         written (snd (start rt env name args s)) =
           written s @ (if last r = CHR 0x0A then [r] else [r, ''\<newline>'']) \<and>
         concat (drop (length (written s)) (written (snd (start rt env name args s)))) =
           (if last r = CHR 0x0A then r else r @ ''\<newline>'') \<and>
         written (snd (respond name (PStr (if last r = CHR 0x0A then r else r @ ''\<newline>'')) s'))
           = written s' @ [if last r = CHR 0x0A then r else r @ ''\<newline>'']"
proof -
  let ?s1 = "s\<lparr> holder := h,
                sent := snd (query_command rt llm_client (join '' '' ([name] @ args)) (sent s)) \<rparr>"
  have a: "start rt env name args s =
      (Callback PNone,
       exit_command
        (if last r = CHR 0x0A then write_terminal ?s1 r
         else write_terminal (write_terminal ?s1 r) ''\<newline>''))"
    unfolding start_Callback [OF assms(1,2)] respond_text [OF assms(3)] by simp
  have b: "written (snd (respond name (PStr (if last r = CHR 0x0A then r else r @ ''\<newline>'')) s'))
           = written s' @ [if last r = CHR 0x0A then r else r @ ''\<newline>'']"
    using assms(3) by (simp add: respond_text write_terminal_def exit_command_def)
  show ?thesis unfolding a using b by (simp add: write_terminal_def exit_command_def)
qed

theorem start_newline_terminates_response_witness:
  \<open>get_llm_cache_client (rt_serving ''{"response": "foobar: permission denied"}'') env_full
       (holder sys0) = Inr (client_full, Some client_full) \<and>
   fst (query_command (rt_serving ''{"response": "foobar: permission denied"}'') client_full
          (join '' '' ([''foobar''] @ [''-x''])) (sent sys0)) =
     Callback (PStr ''foobar: permission denied'') \<and>
   written (snd (start (rt_serving ''{"response": "foobar: permission denied"}'') env_full
                  ''foobar'' [''-x''] sys0)) =
     [''foobar: permission denied'', ''\<newline>'']\<close>
proof -
  let ?rt = \<open>rt_serving ''{"response": "foobar: permission denied"}''\<close>
  have g: "get_llm_cache_client ?rt env_full (holder sys0) = Inr (client_full, Some client_full)"
    by code_simp
  have h: "fst (query_command ?rt client_full (join '' '' ([''foobar''] @ [''-x''])) (sent sys0)) =
     Callback (PStr ''foobar: permission denied'')"
    by code_simp
  have n: "''foobar: permission denied'' \<noteq> []" by simp
  have w: "written sys0 = []" by (simp add: sys0_def)
  show ?thesis using g h w start_newline_terminates_response [OF g h n] by simp
qed

text \<open>
  C8. For every name and argument list, the command line is the name followed by each
  argument in order, each preceded by one space, the tokens taken as they are;
  \<^verbatim>\<open>start\<close> hands exactly this text to the query, and an enabled client sends it as the
  \<^verbatim>\<open>content\<close> of the one request it issues (a disabled client, or a constructor that
  raises, sends nothing).
\<close>

theorem start_command_line:
  "join '' '' ([name] @ args) = name @ concat (map (\<lambda>a. '' '' @ a) args) \<and>
   start_gen rt env name args s =
     query_and_respond rt env name (name @ concat (map (\<lambda>a. '' '' @ a) args)) s \<and>
   sent (snd (start rt env name args s)) =
     (case get_llm_cache_client rt env (holder s) of
        Inl err \<Rightarrow> sent s
      | Inr (llm_client, h) \<Rightarrow>
          if enabled llm_client
          then sent s @
               [build_request llm_client
                  (json_dumps rt
                     (PDict [(''content'', PStr (name @ concat (map (\<lambda>a. '' '' @ a) args)))]))]
          else sent s)"
proof -
  have a: "join '' '' ([name] @ args) = name @ concat (map (\<lambda>a. '' '' @ a) args)"
    using join_space [of name args] by simp
  have b: "start_gen rt env name args s =
             query_and_respond rt env name (name @ concat (map (\<lambda>a. '' '' @ a) args)) s"
    unfolding start_gen_def Let_def a ..
  have c: "sent (snd (start rt env name args s)) =
     (case get_llm_cache_client rt env (holder s) of
        Inl err \<Rightarrow> sent s
      | Inr (llm_client, h) \<Rightarrow>
          if enabled llm_client
          then sent s @
               [build_request llm_client
                  (json_dumps rt
                     (PDict [(''content'', PStr (name @ concat (map (\<lambda>a. '' '' @ a) args)))]))]
          else sent s)"
    unfolding start_sent query_command_sent a ..
  from a b c show ?thesis by blast
qed

section \<open>Enablement and target address\<close>

text \<open>
  C7, as stated, fails in two ways. In \<open>env_empty_url\<close> all three variables are
  supplied, one of them with an empty value, and the client is disabled. In
  \<open>env_bad_url\<close> the port is missing and the address cannot be encoded: the constructor
  raises, and there is no disabled client.
\<close>

theorem empty_value_supplied_but_disabled:
  "(env_empty_url ''LLM_CACHE_URL'' \<noteq> None \<and>
    env_empty_url ''LLM_CACHE_PORT'' \<noteq> None \<and>
    env_empty_url ''LLM_CACHE_ENDPOINT'' \<noteq> None \<and>
    LLMCacheClient_init rt_silent env_empty_url = Inr client_empty_url \<and>
    \<not> enabled client_empty_url) \<and>
   (env_bad_url ''LLM_CACHE_PORT'' = None \<and>
    LLMCacheClient_init rt_silent env_bad_url = Inl (PyException ''UnicodeEncodeError''))"
  by code_simp

text \<open>
  C7, amended. For every environment whose address (the address, a colon, the port and the
  endpoint, with the defaults for the variables not set) UTF-8 can encode, the
  constructor returns a client without an error; its \<^verbatim>\<open>enabled\<close> flag is true if and only
  if each of the three variables is set to a non-empty value, and if any one is missing,
  the client is disabled.
\<close>

theorem enabled_iff_all_nonempty:
  assumes "encode_utf8 rt
             ((case env ''LLM_CACHE_URL'' of None \<Rightarrow> ''http://localhost'' | Some v \<Rightarrow> v) @ '':'' @
              (case env ''LLM_CACHE_PORT'' of None \<Rightarrow> ''8080'' | Some v \<Rightarrow> v) @
              (case env ''LLM_CACHE_ENDPOINT'' of None \<Rightarrow> ''/query'' | Some v \<Rightarrow> v)) = Inr bytes"
  shows "\<exists>c. LLMCacheClient_init rt env = Inr c \<and>
           enabled c =
             ((\<exists>v. env ''LLM_CACHE_URL'' = Some v \<and> v \<noteq> []) \<and>
              (\<exists>v. env ''LLM_CACHE_PORT'' = Some v \<and> v \<noteq> []) \<and>
              (\<exists>v. env ''LLM_CACHE_ENDPOINT'' = Some v \<and> v \<noteq> [])) \<and>
           (env ''LLM_CACHE_URL'' = None \<or> env ''LLM_CACHE_PORT'' = None \<or>
              env ''LLM_CACHE_ENDPOINT'' = None \<longrightarrow> \<not> enabled c)"
proof -
  have e: "encode_utf8 rt (environ_get_default env ''LLM_CACHE_URL'' ''http://localhost'' @ '':'' @
                          environ_get_default env ''LLM_CACHE_PORT'' ''8080'' @
                          environ_get_default env ''LLM_CACHE_ENDPOINT'' ''/query'') = Inr bytes"
    using assms by (simp add: environ_get_default_case)
  obtain c where c: "LLMCacheClient_init rt env = Inr c"
    using LLMCacheClient_init_Inr [OF e] by blast
  have "enabled c =
             ((\<exists>v. env ''LLM_CACHE_URL'' = Some v \<and> v \<noteq> []) \<and>
              (\<exists>v. env ''LLM_CACHE_PORT'' = Some v \<and> v \<noteq> []) \<and>
              (\<exists>v. env ''LLM_CACHE_ENDPOINT'' = Some v \<and> v \<noteq> []))"
    by (simp add: enabled_init [OF c] truthy_environ_get)
  then show ?thesis using c by auto
qed

theorem enabled_iff_all_nonempty_witness:
  "encode_utf8 rt_silent ''http://10.0.0.5:8080/ask'' = Inr ''http://10.0.0.5:8080/ask'' \<and>
   env_no_port ''LLM_CACHE_PORT'' = None \<and>
   (\<exists>c. LLMCacheClient_init rt_silent env_no_port = Inr c \<and> \<not> enabled c)"
proof -
  have e: "encode_utf8 rt_silent
             ((case env_no_port ''LLM_CACHE_URL'' of None \<Rightarrow> ''http://localhost'' | Some v \<Rightarrow> v) @ '':'' @
              (case env_no_port ''LLM_CACHE_PORT'' of None \<Rightarrow> ''8080'' | Some v \<Rightarrow> v) @
              (case env_no_port ''LLM_CACHE_ENDPOINT'' of None \<Rightarrow> ''/query'' | Some v \<Rightarrow> v))
           = Inr ''http://10.0.0.5:8080/ask''"
    by code_simp
  have e': "encode_utf8 rt_silent ''http://10.0.0.5:8080/ask'' = Inr ''http://10.0.0.5:8080/ask''"
    by code_simp
  have h: "env_no_port ''LLM_CACHE_PORT'' = None" by (simp add: env_no_port_def)
  show ?thesis using e' h enabled_iff_all_nonempty [OF e] by auto
qed

text \<open>
  C9, as stated, fails where the address cannot be encoded: at \<open>env_bad_url\<close> the
  constructor raises \<^verbatim>\<open>UnicodeEncodeError\<close>, so that neither it nor
  \<^verbatim>\<open>get_llm_cache_client\<close> yields a client, and there is no target address.
\<close>

theorem unencodable_address_no_client:
  "LLMCacheClient_init rt_silent env_bad_url = Inl (PyException ''UnicodeEncodeError'') \<and>
   (\<nexists>c. LLMCacheClient_init rt_silent env_bad_url = Inr c) \<and>
   get_llm_cache_client rt_silent env_bad_url None = Inl (PyException ''UnicodeEncodeError'')"
proof -
  have a: "LLMCacheClient_init rt_silent env_bad_url = Inl (PyException ''UnicodeEncodeError'')"
    by code_simp
  have b: "get_llm_cache_client rt_silent env_bad_url None = Inl (PyException ''UnicodeEncodeError'')"
    by code_simp
  show ?thesis using a b by simp
qed

text \<open>
  C9, amended. For every environment whose address UTF-8 can encode, the constructor
  returns a client whose \<^verbatim>\<open>url\<close>, \<^verbatim>\<open>port\<close> and \<^verbatim>\<open>endpoint\<close> are the values of the three
  variables, with \<^verbatim>\<open>http://localhost\<close>, \<^verbatim>\<open>8080\<close> and \<^verbatim>\<open>/query\<close> for a variable that is
  not set, and whose \<^verbatim>\<open>full_url\<close> is the encoding of the address, a colon, the port and the
  endpoint in that order; with nothing set it is the encoding of
  \<^verbatim>\<open>http://localhost:8080/query\<close>.
\<close>

theorem full_url_concatenation:
  assumes "encode_utf8 rt
             ((case env ''LLM_CACHE_URL'' of None \<Rightarrow> ''http://localhost'' | Some v \<Rightarrow> v) @ '':'' @
              (case env ''LLM_CACHE_PORT'' of None \<Rightarrow> ''8080'' | Some v \<Rightarrow> v) @
              (case env ''LLM_CACHE_ENDPOINT'' of None \<Rightarrow> ''/query'' | Some v \<Rightarrow> v)) = Inr bytes"
  shows "(\<exists>c. LLMCacheClient_init rt env = Inr c \<and>
            url c = (case env ''LLM_CACHE_URL'' of None \<Rightarrow> ''http://localhost'' | Some v \<Rightarrow> v) \<and>
            port c = (case env ''LLM_CACHE_PORT'' of None \<Rightarrow> ''8080'' | Some v \<Rightarrow> v) \<and>
            endpoint c = (case env ''LLM_CACHE_ENDPOINT'' of None \<Rightarrow> ''/query'' | Some v \<Rightarrow> v) \<and>
            full_url c = bytes) \<and>
         (\<forall>b. encode_utf8 rt ''http://localhost:8080/query'' = Inr b \<longrightarrow>
            (\<exists>c. LLMCacheClient_init rt (\<lambda>k. None) = Inr c \<and> full_url c = b))"
proof -
  have e: "encode_utf8 rt (environ_get_default env ''LLM_CACHE_URL'' ''http://localhost'' @ '':'' @
                          environ_get_default env ''LLM_CACHE_PORT'' ''8080'' @
                          environ_get_default env ''LLM_CACHE_ENDPOINT'' ''/query'') = Inr bytes"
    using assms by (simp add: environ_get_default_case)
  have a: "\<exists>c. LLMCacheClient_init rt env = Inr c \<and>
            url c = (case env ''LLM_CACHE_URL'' of None \<Rightarrow> ''http://localhost'' | Some v \<Rightarrow> v) \<and>
            port c = (case env ''LLM_CACHE_PORT'' of None \<Rightarrow> ''8080'' | Some v \<Rightarrow> v) \<and>
            endpoint c = (case env ''LLM_CACHE_ENDPOINT'' of None \<Rightarrow> ''/query'' | Some v \<Rightarrow> v) \<and>
            full_url c = bytes"
    unfolding LLMCacheClient_init_Inr [OF e] by (simp add: environ_get_default_case)
  have b: "\<forall>b. encode_utf8 rt ''http://localhost:8080/query'' = Inr b \<longrightarrow>
            (\<exists>c. LLMCacheClient_init rt (\<lambda>k. None) = Inr c \<and> full_url c = b)"
    by (simp add: LLMCacheClient_init_def environ_get_default_def Let_def)
  from a b show ?thesis by blast
qed

theorem full_url_concatenation_witness:
  "encode_utf8 rt_silent ''http://10.0.0.5:9000/ask'' = Inr ''http://10.0.0.5:9000/ask'' \<and>
   encode_utf8 rt_silent ''http://localhost:8080/query'' = Inr ''http://localhost:8080/query'' \<and>
   (\<exists>c. LLMCacheClient_init rt_silent env_full = Inr c \<and>
        full_url c = ''http://10.0.0.5:9000/ask'') \<and>
   (\<exists>c. LLMCacheClient_init rt_silent (\<lambda>k. None) = Inr c \<and>
        full_url c = ''http://localhost:8080/query'')"
proof -
  have e: "encode_utf8 rt_silent
             ((case env_full ''LLM_CACHE_URL'' of None \<Rightarrow> ''http://localhost'' | Some v \<Rightarrow> v) @ '':'' @
              (case env_full ''LLM_CACHE_PORT'' of None \<Rightarrow> ''8080'' | Some v \<Rightarrow> v) @
              (case env_full ''LLM_CACHE_ENDPOINT'' of None \<Rightarrow> ''/query'' | Some v \<Rightarrow> v))
           = Inr ''http://10.0.0.5:9000/ask''"
    by code_simp
  have e1: "encode_utf8 rt_silent ''http://10.0.0.5:9000/ask'' = Inr ''http://10.0.0.5:9000/ask''"
    by code_simp
  have e2: "encode_utf8 rt_silent ''http://localhost:8080/query'' = Inr ''http://localhost:8080/query''"
    by code_simp
  show ?thesis using e1 e2 full_url_concatenation [OF e] by auto
qed

text \<open>
  C10, as stated, fails where the address cannot be encoded: in
  \<open>env_bad_url_empty_port\<close> the port is set to the empty string, the constructor
  raises, and \<^verbatim>\<open>start\<close> fails with that exception instead of finding a disabled client.
\<close>

theorem empty_port_unencodable_url_raises:
  "env_bad_url_empty_port ''LLM_CACHE_PORT'' = Some [] \<and>
   LLMCacheClient_init rt_silent env_bad_url_empty_port
     = Inl (PyException ''UnicodeEncodeError'') \<and>
   start rt_silent env_bad_url_empty_port ''id'' [] sys0
     = (Errback (PyException ''UnicodeEncodeError''), sys0)"
  by code_simp

text \<open>
  C10, amended. If one of the three variables is set to the empty string and the
  constructor returns a client, that client is disabled, as is the client built with
  the variable removed from the environment; for both, every query delivers \<^verbatim>\<open>None\<close> and
  issues no request.
\<close>

theorem empty_value_disables_like_unset:
  assumes "k = ''LLM_CACHE_URL'' \<or> k = ''LLM_CACHE_PORT'' \<or> k = ''LLM_CACHE_ENDPOINT''"
    and "env k = Some []"
    and "LLMCacheClient_init rt env = Inr c"
    and "LLMCacheClient_init rt (env(k := None)) = Inr c'"
  shows "\<not> enabled c \<and> \<not> enabled c' \<and>
         query_command rt c command issued = (Callback PNone, issued) \<and>
         query_command rt c' command issued = (Callback PNone, issued)"
proof -
  have a: "\<not> truthy (environ_get env k)" using assms(2) by (simp add: environ_get_def)
  have b: "\<not> truthy (environ_get (env(k := None)) k)" by (simp add: environ_get_def)
  have c: "\<not> enabled c"
    using assms(1) a unfolding enabled_init [OF assms(3)] by blast
  have d: "\<not> enabled c'"
    using assms(1) b unfolding enabled_init [OF assms(4)] by blast
  show ?thesis using c d by (simp add: query_command_not_enabled)
qed

theorem empty_value_disables_like_unset_witness:
  "env_empty_url ''LLM_CACHE_URL'' = Some [] \<and>
   LLMCacheClient_init rt_silent env_empty_url = Inr client_empty_url \<and>
   LLMCacheClient_init rt_silent (env_empty_url(''LLM_CACHE_URL'' := None)) =
     Inr (client_empty_url\<lparr> url := ''http://localhost'',
                            full_url := ''http://localhost:9000/ask'' \<rparr>) \<and>
   \<not> enabled client_empty_url \<and>
   query_command rt_silent client_empty_url ''id'' [] = (Callback PNone, [])"
proof -
  have h: "env_empty_url ''LLM_CACHE_URL'' = Some []" by (simp add: env_empty_url_def)
  have k: "''LLM_CACHE_URL'' = ''LLM_CACHE_URL'' \<or> ''LLM_CACHE_URL'' = ''LLM_CACHE_PORT''
           \<or> ''LLM_CACHE_URL'' = ''LLM_CACHE_ENDPOINT''" by simp
  have c: "LLMCacheClient_init rt_silent env_empty_url = Inr client_empty_url" by code_simp
  have c': "LLMCacheClient_init rt_silent (env_empty_url(''LLM_CACHE_URL'' := None)) =
     Inr (client_empty_url\<lparr> url := ''http://localhost'',
                            full_url := ''http://localhost:9000/ask'' \<rparr>)"
    by code_simp
  show ?thesis
    using h c c' empty_value_disables_like_unset [OF k h c c', of "''id''" "[]"]
    by simp
qed

end
